theory Spec2Isabelle
  imports Main
begin

section \<open>Post statistics component (src/components/shared/PostStats.tsx)\<close>

text \<open>
  The component keeps two pieces of local React state, \<open>likes\<close> (a list of user ids) and
  \<open>isSaved\<close>. A click handler reads the state of the current render, computes the next
  state and hands one mutation to the query layer. The handlers are modelled by explicit
  state passing: they take the state of the render they run in and return the state after
  the \<open>setLikes\<close>/\<open>setIsSaved\<close> call together with the mutations they issued, in order.
\<close>

record post_stats =
  likes :: "string list"
  isSaved :: bool

datatype mutation =
    LikePost string "string list"
  | SavePost string string
  | DeleteSavePost string

text \<open>A save record of the current user: its own \<open>$id\<close> and the \<open>$id\<close> of the post it embeds.\<close>

record save_record =
  record_id :: string
  record_post_id :: string

text \<open>
  Lines 60-69: \<open>likesArray\<close> starts as a copy of \<open>likes\<close>; if it includes \<open>userId\<close> it is
  filtered by \<open>Id !== userId\<close>, otherwise \<open>userId\<close> is pushed at the end.
\<close>

definition likesArray :: "string list \<Rightarrow> string \<Rightarrow> string list" where
  "likesArray ls userId =
     (if userId \<in> set ls then filter (\<lambda>Id. Id \<noteq> userId) ls else ls @ [userId])"

definition handleLikePost :: "string \<Rightarrow> string \<Rightarrow> post_stats \<Rightarrow> post_stats \<times> mutation list" where
  "handleLikePost postId userId s =
     (let la = likesArray (likes s) userId
      in (s\<lparr>likes := la\<rparr>, [LikePost postId la]))"

text \<open>\<open>n\<close> clicks on the like icon, each one running in the render that follows the previous one.\<close>

fun like_clicks :: "nat \<Rightarrow> string \<Rightarrow> string \<Rightarrow> post_stats \<Rightarrow> post_stats" where
  "like_clicks 0 postId userId s = s"
| "like_clicks (Suc n) postId userId s =
     fst (handleLikePost postId userId (like_clicks n postId userId s))"

text \<open>
  Lines 39-42: \<open>currentUser?.save.find(record => record.post.$id === post.$id)\<close>. The query
  data is \<open>None\<close> while the current-user query has not resolved; \<open>find\<close> yields the first
  matching record or \<open>undefined\<close>.
\<close>

definition savedPostRecord :: "save_record list option \<Rightarrow> string \<Rightarrow> save_record option" where
  "savedPostRecord currentUser_save postId =
     (case currentUser_save of
        None \<Rightarrow> None
      | Some save \<Rightarrow> find (\<lambda>r. record_post_id r = postId) save)"

text \<open>Lines 45-48: the effect that runs when \<open>currentUser\<close> changes.\<close>

definition sync_isSaved :: "save_record option \<Rightarrow> post_stats \<Rightarrow> post_stats" where
  "sync_isSaved rec s = s\<lparr>isSaved := (rec \<noteq> None)\<rparr>"

text \<open>
  Lines 79-95. The branch is taken on \<open>savedPostRecord\<close>, the value derived from the query
  cache in the current render, not on the local \<open>isSaved\<close> flag.
\<close>

definition handleSavePost ::
  "string \<Rightarrow> string \<Rightarrow> save_record option \<Rightarrow> post_stats \<Rightarrow> post_stats \<times> mutation list" where
  "handleSavePost postId userId rec s =
     (case rec of
        Some r \<Rightarrow> (s\<lparr>isSaved := False\<rparr>, [DeleteSavePost (record_id r)])
      | None \<Rightarrow> (s\<lparr>isSaved := True\<rparr>, [SavePost userId postId]))"

text \<open>
  \<open>n\<close> clicks on the save icon while the cached lookup \<open>rec\<close> is not refreshed: every click
  sees the same \<open>savedPostRecord\<close>. The second component collects the mutations issued.
\<close>

fun save_clicks ::
  "nat \<Rightarrow> string \<Rightarrow> string \<Rightarrow> save_record option \<Rightarrow> post_stats \<Rightarrow> post_stats \<times> mutation list" where
  "save_clicks 0 postId userId rec s = (s, [])"
| "save_clicks (Suc n) postId userId rec s =
     (case save_clicks n postId userId rec s of
        (s', ms) \<Rightarrow> (case handleSavePost postId userId rec s' of
                       (s'', ms') \<Rightarrow> (s'', ms @ ms')))"

text \<open>The flag a true toggle would show after \<open>n\<close> calls: the initial flag, flipped \<open>n\<close> times.\<close>

definition parity_flag :: "bool \<Rightarrow> nat \<Rightarrow> bool" where
  "parity_flag initial n = (if even n then initial else \<not> initial)"


section \<open>Remote service facade (src/lib/appwrite/backend.ts)\<close>

subsection \<open>Values, errors and the SDK\<close>

text \<open>
  What can be thrown, caught and logged: an \<open>Error\<close> built with a message, the \<open>Error\<close>
  constructor itself (line 187 throws it without calling it), the exception the SDK rejects
  with (response code and message; code 0 stands for a network failure), and the
  \<open>TypeError\<close> of a property read on \<open>undefined\<close> or \<open>null\<close>.
\<close>

datatype error =
    Error string
  | ErrorConstructor
  | AppwriteException nat string
  | TypeError string

text \<open>A value that may be \<open>undefined\<close> or \<open>null\<close> (both falsy) or an object (truthy).\<close>

datatype 'a js = Undefined | Null | Obj 'a

text \<open>A promise that has settled: rejected with an error or resolved with a value.\<close>

datatype 'a promise = Rejects error | Resolves "'a js"

type_synonym url = string
type_synonym js_file = string
type_synonym session = string

record account =
  account_id :: string
  account_email :: string
  account_name :: string

record file_document =
  file_id :: string

record 'd document_list =
  total :: nat
  documents :: "'d list"

datatype query =
    Equal string string
  | Search string string
  | OrderDesc string
  | Limit int
  | CursorAfter string

text \<open>The data objects the facade writes with \<open>createDocument\<close> and \<open>updateDocument\<close>.\<close>

datatype payload =
    UserData string string string "string option" "url js"
  | PostData string string url string "string option" "string list"
  | PostUpdate string url string "string option" "string list"
  | LikesUpdate "string list"
  | SaveData string string
  | UserUpdate string string url string

datatype request =
    AccountCreate string string string string
  | AccountCreateEmailPasswordSession string string
  | AccountGet
  | AccountDeleteSession string
  | AvatarsGetInitials string
  | DatabasesCreateDocument string string string payload
  | DatabasesListDocuments string string "query list"
  | DatabasesGetDocument string string string
  | DatabasesUpdateDocument string string string payload
  | DatabasesDeleteDocument string string string
  | StorageCreateFile string string "js_file js"
  | StorageGetFilePreview string string nat nat
  | StorageDeleteFile string string

text \<open>
  The backend is an opaque remote service. Its configuration (\<open>AppWriteConfig\<close>, from
  \<open>./config\<close>) and its behaviour are parameters of every facade function: for each kind of
  result, a function from the request to the way the request settles. \<open>'d\<close> is the type
  of documents, which the facade never inspects. No facade function issues the same
  request twice in one run, so a function of the request covers every behaviour of the
  service within a run. \<open>ID_unique\<close> is what \<open>ID.unique()\<close> returns.
\<close>

record 'd appwrite =
  databasesId :: string
  postsCollectionId :: string
  usersCollectionId :: string
  savesCollectionId :: string
  storageId :: string
  ID_unique :: string
  account_reply :: "request \<Rightarrow> account promise"
  session_reply :: "request \<Rightarrow> session promise"
  url_reply :: "request \<Rightarrow> url promise"
  document_reply :: "request \<Rightarrow> 'd promise"
  documents_reply :: "request \<Rightarrow> 'd document_list promise"
  file_reply :: "request \<Rightarrow> file_document promise"
  status_reply :: "request \<Rightarrow> unit promise"

subsection \<open>Effects: SDK calls, logging, exceptions\<close>

record IUser =
  user_id :: string
  user_name :: string
  user_username :: string
  user_email :: string
  user_imageUrl :: string
  user_bio :: string

text \<open>Everything observable a run does, in order.\<close>

datatype event =
    Sdk request
  | ConsoleLog error
  | SetIsLoading bool
  | SetUser IUser
  | SetIsAuthenticated bool
  | Navigate string

text \<open>
  A run of an \<open>async\<close> function: the promise it returns rejects (\<open>Inl\<close>) or resolves
  (\<open>Inr\<close>), and the events it produced.
\<close>

type_synonym 'a io = "(error + 'a) \<times> event list"

definition return :: "'a \<Rightarrow> 'a io" where
  "return x = (Inr x, [])"

definition throw :: "error \<Rightarrow> 'a io" where
  "throw e = (Inl e, [])"

definition bind_io :: "'a io \<Rightarrow> ('a \<Rightarrow> 'b io) \<Rightarrow> 'b io" where
  "bind_io m f =
     (case m of
        (Inl e, evs) \<Rightarrow> (Inl e, evs)
      | (Inr x, evs) \<Rightarrow> (case f x of (r, evs') \<Rightarrow> (r, evs @ evs')))"

definition try_catch :: "'a io \<Rightarrow> (error \<Rightarrow> 'a io) \<Rightarrow> 'a io" where
  "try_catch m handler =
     (case m of
        (Inl e, evs) \<Rightarrow> (case handler e of (r, evs') \<Rightarrow> (r, evs @ evs'))
      | (Inr x, evs) \<Rightarrow> (Inr x, evs))"

text \<open>\<open>try { m } finally { fin }\<close> where \<open>fin\<close> neither returns nor throws.\<close>

definition try_finally :: "'a io \<Rightarrow> event list \<Rightarrow> 'a io" where
  "try_finally m fin = (case m of (r, evs) \<Rightarrow> (r, evs @ fin))"

definition emit :: "event \<Rightarrow> unit io" where
  "emit ev = (Inr (), [ev])"

definition console_log :: "error \<Rightarrow> unit io" where
  "console_log e = emit (ConsoleLog e)"

text \<open>Calling an SDK method issues the request and yields a promise.\<close>

definition sdk_call :: "(request \<Rightarrow> 'a promise) \<Rightarrow> request \<Rightarrow> 'a promise io" where
  "sdk_call reply req = (Inr (reply req), [Sdk req])"

text \<open>\<open>await p\<close>: the value \<open>p\<close> resolves with, or a throw of what it rejects with.\<close>

definition await :: "'a promise \<Rightarrow> 'a js io" where
  "await p = (case p of Rejects e \<Rightarrow> throw e | Resolves v \<Rightarrow> return v)"

text \<open>
  The SDK methods that return at once (\<open>avatars.getInitials\<close>, \<open>storage.getFilePreview\<close>)
  give their value or throw on the spot.
\<close>

definition sdk_sync :: "(request \<Rightarrow> 'a promise) \<Rightarrow> request \<Rightarrow> 'a js io" where
  "sdk_sync reply req = bind_io (sdk_call reply req) await"

text \<open>The catch block of most facade functions: log, then fall off the end.\<close>

definition catch_log :: "error \<Rightarrow> 'a js io" where
  "catch_log e = bind_io (console_log e) (\<lambda>_. return Undefined)"

text \<open>\<open>xs[0]\<close>: \<open>undefined\<close> on an empty array.\<close>

definition first_of :: "'a list \<Rightarrow> 'a js" where
  "first_of xs = (case xs of [] \<Rightarrow> Undefined | x # _ \<Rightarrow> Obj x)"

text \<open>\<open>s.split(",")\<close>: the empty string splits into one empty piece.\<close>

fun split_comma :: "string \<Rightarrow> string list" where
  "split_comma [] = [[]]"
| "split_comma (c # cs) =
     (if c = CHR '','' then [] # split_comma cs
      else (case split_comma cs of w # ws \<Rightarrow> (c # w) # ws | [] \<Rightarrow> [[c]]))"

text \<open>\<open>tags?.replace(/ /g, "").split(",") || []\<close>\<close>

definition tags_array :: "string option \<Rightarrow> string list" where
  "tags_array tags =
     (case tags of None \<Rightarrow> [] | Some t \<Rightarrow> split_comma (filter (\<lambda>c. c \<noteq> CHR '' '') t))"

text \<open>\<open>!id\<close> for an optional string: \<open>undefined\<close> and the empty string are falsy.\<close>

definition falsy_string :: "string option \<Rightarrow> bool" where
  "falsy_string x = (case x of None \<Rightarrow> True | Some s \<Rightarrow> s = [])"


subsection \<open>The SDK methods the facade calls\<close>



definition account_get :: "'d appwrite \<Rightarrow> account promise io" where
  "account_get env = sdk_call (account_reply env) AccountGet"

definition account_deleteSession :: "'d appwrite \<Rightarrow> string \<Rightarrow> unit promise io" where
  "account_deleteSession env sid = sdk_call (status_reply env) (AccountDeleteSession sid)"


definition databases_createDocument ::
  "'d appwrite \<Rightarrow> string \<Rightarrow> string \<Rightarrow> string \<Rightarrow> payload \<Rightarrow> 'd promise io" where
  "databases_createDocument env db coll did d =
     sdk_call (document_reply env) (DatabasesCreateDocument db coll did d)"

definition databases_listDocuments ::
  "'d appwrite \<Rightarrow> string \<Rightarrow> string \<Rightarrow> query list \<Rightarrow> 'd document_list promise io" where
  "databases_listDocuments env db coll queries =
     sdk_call (documents_reply env) (DatabasesListDocuments db coll queries)"



definition databases_deleteDocument ::
  "'d appwrite \<Rightarrow> string \<Rightarrow> string \<Rightarrow> string \<Rightarrow> unit promise io" where
  "databases_deleteDocument env db coll did =
     sdk_call (status_reply env) (DatabasesDeleteDocument db coll did)"

definition storage_createFile ::
  "'d appwrite \<Rightarrow> string \<Rightarrow> string \<Rightarrow> js_file js \<Rightarrow> file_document promise io" where
  "storage_createFile env bucket fid f =
     sdk_call (file_reply env) (StorageCreateFile bucket fid f)"

definition storage_getFilePreview ::
  "'d appwrite \<Rightarrow> string \<Rightarrow> string \<Rightarrow> nat \<Rightarrow> nat \<Rightarrow> url js io" where
  "storage_getFilePreview env bucket fid w h =
     sdk_sync (url_reply env) (StorageGetFilePreview bucket fid w h)"

definition storage_deleteFile :: "'d appwrite \<Rightarrow> string \<Rightarrow> string \<Rightarrow> unit promise io" where
  "storage_deleteFile env bucket fid = sdk_call (status_reply env) (StorageDeleteFile bucket fid)"

subsection \<open>Auth\<close>





text \<open>Lines 111-123. The check of the result is commented out in the source.\<close>

definition getAccount :: "'d appwrite \<Rightarrow> account js io" where
  "getAccount env =
     try_catch
       (bind_io (bind_io (account_get env) await) (\<lambda>currentAccount. return currentAccount))
       catch_log"

text \<open>
  Lines 131-151. \<open>currentUser\<close> is the promise of \<open>listDocuments\<close>, an object, so the test
  \<open>!currentUser\<close> of line 144 never holds; the promise is awaited in line 146, inside the
  \<open>try\<close>. The catch block returns \<open>null\<close>.
\<close>

definition getCurrentUser :: "'d appwrite \<Rightarrow> 'd js io" where
  "getCurrentUser env =
     try_catch
       (bind_io (getAccount env) (\<lambda>currentAccount.
          case currentAccount of
            Obj acc \<Rightarrow>
              bind_io (databases_listDocuments env (databasesId env) (usersCollectionId env)
                         [Equal ''accountId'' (account_id acc)])
                (\<lambda>currentUser.
                   bind_io (await currentUser) (\<lambda>settled.
                     case settled of
                       Obj l \<Rightarrow> return (first_of (documents l))
                     | _ \<Rightarrow> throw (TypeError ''Cannot read properties (reading documents)'')))
          | _ \<Rightarrow> throw (Error ''Failed to retrieve the current account'')))
       (\<lambda>error. bind_io (console_log error) (\<lambda>_. return Null))"

text \<open>Lines 159-167. As in \<open>saveUserToDB\<close>, the promise is returned without being awaited.\<close>

definition signOutAccount :: "'d appwrite \<Rightarrow> unit js io" where
  "signOutAccount env =
     bind_io
       (try_catch
          (bind_io (account_deleteSession env ''current'') (\<lambda>session. return session))
          (\<lambda>error. bind_io (console_log error) (\<lambda>_. return (Resolves Undefined))))
       await"

subsection \<open>Files\<close>

text \<open>Lines 232-245. The check of the result is commented out in the source.\<close>

definition uploadFile :: "'d appwrite \<Rightarrow> js_file js \<Rightarrow> file_document js io" where
  "uploadFile env f =
     try_catch
       (bind_io (bind_io (storage_createFile env (storageId env) (ID_unique env) f) await)
          (\<lambda>fileDocument. return fileDocument))
       catch_log"

text \<open>Lines 254-275.\<close>

definition getFilePreview :: "'d appwrite \<Rightarrow> string \<Rightarrow> url js io" where
  "getFilePreview env fileId =
     try_catch
       (bind_io (storage_getFilePreview env (storageId env) fileId 2000 2000) (\<lambda>fileUrl.
          case fileUrl of
            Obj u \<Rightarrow> return (Obj u)
          | _ \<Rightarrow> throw (Error ''Failed to get file preview'')))
       catch_log"

text \<open>Lines 284-291. The result is the object \<open>{ status: "ok" }\<close>, modelled by its status.\<close>

definition deleteFile :: "'d appwrite \<Rightarrow> string \<Rightarrow> string js io" where
  "deleteFile env fileId =
     try_catch
       (bind_io (bind_io (storage_deleteFile env (storageId env) fileId) await)
          (\<lambda>_. return (Obj ''ok'')))
       catch_log"


subsection \<open>Posts\<close>

record INewPost =
  post_userId :: string
  post_caption :: string
  post_file :: "js_file list"
  post_location :: "string option"
  post_tags :: "string option"


text \<open>Lines 183-223.\<close>

definition createPost :: "'d appwrite \<Rightarrow> INewPost \<Rightarrow> 'd js io" where
  "createPost env post =
     try_catch
       (bind_io (uploadFile env (first_of (post_file post))) (\<lambda>uploadedFile.
          case uploadedFile of
            Obj uf \<Rightarrow>
              bind_io (getFilePreview env (file_id uf)) (\<lambda>fileUrl.
                case fileUrl of
                  Obj u \<Rightarrow>
                    (let tags = tags_array (post_tags post) in
                     bind_io (bind_io (databases_createDocument env (databasesId env)
                                         (postsCollectionId env) (ID_unique env)
                                         (PostData (post_userId post) (post_caption post) u
                                            (file_id uf) (post_location post) tags)) await)
                       (\<lambda>newPost.
                          case newPost of
                            Obj np \<Rightarrow> return (Obj np)
                          | _ \<Rightarrow> bind_io (deleteFile env (file_id uf))
                                   (\<lambda>_. throw (Error ''Failed to create post''))))
                | _ \<Rightarrow> bind_io (deleteFile env (file_id uf))
                         (\<lambda>_. throw (Error ''Failed to retrieve file URL'')))
          | _ \<Rightarrow> throw ErrorConstructor))
       catch_log"


text \<open>
  \<open>pageParam\<close> is declared a number; the first page is asked for with \<open>undefined\<close> and the
  following ones with the id of a document, a string. Numbers are a type parameter \<open>'n\<close>
  with the two operations the function applies to them: their truthiness and
  \<open>toString\<close>. Reading \<open>toString\<close> of \<open>undefined\<close> throws.
\<close>

datatype 'n page_param = PageUndefined | PageNumber 'n | PageString string

definition page_truthy :: "('n \<Rightarrow> bool) \<Rightarrow> 'n page_param \<Rightarrow> bool" where
  "page_truthy number_truthy p =
     (case p of PageUndefined \<Rightarrow> False | PageNumber n \<Rightarrow> number_truthy n
      | PageString s \<Rightarrow> s \<noteq> [])"

definition page_toString :: "('n \<Rightarrow> string) \<Rightarrow> 'n page_param \<Rightarrow> string io" where
  "page_toString number_toString p =
     (case p of
        PageUndefined \<Rightarrow> throw (TypeError ''Cannot read properties of undefined (reading toString)'')
      | PageNumber n \<Rightarrow> return (number_toString n)
      | PageString s \<Rightarrow> return s)"

text \<open>Lines 329-333: the query list, built before the \<open>try\<close>.\<close>

definition infinite_queries ::
  "('n \<Rightarrow> bool) \<Rightarrow> ('n \<Rightarrow> string) \<Rightarrow> 'n page_param \<Rightarrow> query list io" where
  "infinite_queries number_truthy number_toString pageParam =
     (let queries = [OrderDesc ''$updatedAt'', Limit 9] in
      if page_truthy number_truthy pageParam
      then bind_io (page_toString number_toString pageParam)
             (\<lambda>s. return (queries @ [CursorAfter s]))
      else return queries)"

text \<open>Lines 328-348.\<close>

definition getInfinitePosts ::
  "'d appwrite \<Rightarrow> ('n \<Rightarrow> bool) \<Rightarrow> ('n \<Rightarrow> string) \<Rightarrow> 'n page_param \<Rightarrow> 'd document_list js io" where
  "getInfinitePosts env number_truthy number_toString pageParam =
     bind_io (infinite_queries number_truthy number_toString pageParam) (\<lambda>queries.
       try_catch
         (bind_io (bind_io (databases_listDocuments env (databasesId env)
                              (postsCollectionId env) queries) await)
            (\<lambda>posts. case posts of
                        Obj ps \<Rightarrow> return (Obj ps)
                      | _ \<Rightarrow> throw (Error ''Failed to retrieve posts'')))
         catch_log)"



text \<open>
  Lines 462-480. The early return stands before the \<open>try\<close>; the result on success is the
  object \<open>{ status: "Ok" }\<close>.
\<close>

definition deletePost :: "'d appwrite \<Rightarrow> string option \<Rightarrow> string option \<Rightarrow> string js io" where
  "deletePost env postId imageId =
     (if falsy_string postId \<or> falsy_string imageId then return Undefined
      else
        try_catch
          (bind_io (bind_io (databases_deleteDocument env (databasesId env)
                               (postsCollectionId env) (the postId)) await)
             (\<lambda>statusCode.
                case statusCode of
                  Obj _ \<Rightarrow> bind_io (deleteFile env (the imageId)) (\<lambda>_. return (Obj ''Ok''))
                | _ \<Rightarrow> throw (Error ''Failed to delete post'')))
          catch_log)"







subsection \<open>Users\<close>






section \<open>Session state store (src/context/AuthProvider.tsx)\<close>

text \<open>The user document of the users collection, with the fields \<open>checkAuthUser\<close> reads.\<close>

record user_document =
  doc_id :: string
  doc_name :: string
  doc_username :: string
  doc_email :: string
  doc_imageUrl :: string
  doc_bio :: string

record auth_state =
  user :: IUser
  isAuthenticated :: bool
  isLoading :: bool

definition INITIAL_USER :: IUser where
  "INITIAL_USER = \<lparr>user_id = [], user_name = [], user_username = [], user_email = [],
                    user_imageUrl = [], user_bio = []\<rparr>"

definition INITIAL_STATE :: auth_state where
  "INITIAL_STATE = \<lparr>user = INITIAL_USER, isAuthenticated = False, isLoading = False\<rparr>"

text \<open>Lines 52-59: the object handed to \<open>setUser\<close>.\<close>

definition IUser_of :: "user_document \<Rightarrow> IUser" where
  "IUser_of currentUser =
     \<lparr>user_id = doc_id currentUser, user_name = doc_name currentUser,
      user_username = doc_username currentUser, user_email = doc_email currentUser,
      user_imageUrl = doc_imageUrl currentUser, user_bio = doc_bio currentUser\<rparr>"

text \<open>
  Lines 47-70. The state setters are events of the run; the value is what the promise of
  \<open>checkAuthUser\<close> resolves with. The \<open>finally\<close> block runs on every path.
\<close>

definition checkAuthUser :: "user_document appwrite \<Rightarrow> bool io" where
  "checkAuthUser env =
     bind_io (emit (SetIsLoading True)) (\<lambda>_.
       try_finally
         (try_catch
            (bind_io (getCurrentUser env) (\<lambda>currentUser.
               case currentUser of
                 Obj cu \<Rightarrow>
                   bind_io (emit (SetUser (IUser_of cu))) (\<lambda>_.
                   bind_io (emit (SetIsAuthenticated True)) (\<lambda>_.
                   return True))
               | _ \<Rightarrow> return False))
            (\<lambda>error. bind_io (console_log error) (\<lambda>_. return False)))
         [SetIsLoading False])"

text \<open>The provider's state after the setters of a run have been applied in order.\<close>

fun apply_event :: "auth_state \<Rightarrow> event \<Rightarrow> auth_state" where
  "apply_event s (SetIsLoading b) = s\<lparr>isLoading := b\<rparr>"
| "apply_event s (SetUser u) = s\<lparr>user := u\<rparr>"
| "apply_event s (SetIsAuthenticated b) = s\<lparr>isAuthenticated := b\<rparr>"
| "apply_event s _ = s"

definition state_after :: "auth_state \<Rightarrow> event list \<Rightarrow> auth_state" where
  "state_after s evs = foldl apply_event s evs"

text \<open>The setters of the loading flag a run performs, in order.\<close>

definition loading_writes :: "event list \<Rightarrow> bool list" where
  "loading_writes evs = concat (map (\<lambda>ev. case ev of SetIsLoading b \<Rightarrow> [b] | _ \<Rightarrow> []) evs)"

text \<open>
  Lines 73-85, the effect run on mount. \<open>cookieFallback\<close> is what
  \<open>localStorage.getItem("cookieFallback")\<close> gives: \<open>null\<close> for a missing entry, modelled by
  \<open>None\<close>, or the stored string. \<open>checkAuthUser\<close> is called without \<open>await\<close>; its events
  follow the redirect.
\<close>

definition redirect_on_mount :: "string option \<Rightarrow> bool" where
  "redirect_on_mount cookieFallback =
     (cookieFallback = Some ''[]'' \<or> cookieFallback = None)"

definition mount_effect :: "user_document appwrite \<Rightarrow> string option \<Rightarrow> event list" where
  "mount_effect env cookieFallback =
     (if redirect_on_mount cookieFallback then [Navigate ''/sign-in''] else [])
     @ snd (checkAuthUser env)"


section \<open>Routing shell (src/layouts)\<close>

text \<open>What a layout renders.\<close>

datatype element =
    NavigateTo string
  | Fragment "element list"
  | MainElement "element list"
  | SectionElement "element list"
  | Img string
  | Outlet
  | TopNavBar
  | AsideNavBar
  | BottomNavBar

text \<open>
  src/layouts/auth/AuthLayout.tsx, lines 6-27. The layout is rendered below the provider
  of the session state store, the argument here; it does not read it: \<open>isAuthenticated\<close>
  is the local constant of line 7.
\<close>

definition AuthLayout :: "auth_state \<Rightarrow> element" where
  "AuthLayout store =
     (let isAuthenticated = False in
      Fragment [if isAuthenticated then NavigateTo ''/''
                else Fragment [MainElement [Outlet], Img ''banner'']])"

text \<open>src/layouts/root/RootLayout.tsx, lines 8-19.\<close>

definition RootLayout :: "auth_state \<Rightarrow> element" where
  "RootLayout store =
     MainElement [TopNavBar, AsideNavBar, SectionElement [Outlet], BottomNavBar]"


text \<open>Whether an element occurs in what a layout renders.\<close>

fun renders :: "element \<Rightarrow> element \<Rightarrow> bool" where
  "renders x (Fragment cs) = (x = Fragment cs \<or> list_ex (renders x) cs)"
| "renders x (MainElement cs) = (x = MainElement cs \<or> list_ex (renders x) cs)"
| "renders x (SectionElement cs) = (x = SectionElement cs \<or> list_ex (renders x) cs)"
| "renders x y = (x = y)"

text \<open>
  src/App.tsx, lines 21-44: the route table. The two public routes are children of
  \<open>AuthLayout\<close>, the private ones of \<open>RootLayout\<close>.
\<close>

datatype route =
    SignIn | SignUp
  | Home | Explore | Saved | UsersCommunity | CreatePost
  | EditPost string | PostDetails string | Profile string | UpdateProfile string

definition App :: "auth_state \<Rightarrow> route \<Rightarrow> element" where
  "App store r =
     MainElement [case r of SignIn \<Rightarrow> AuthLayout store | SignUp \<Rightarrow> AuthLayout store
                  | _ \<Rightarrow> RootLayout store]"


section \<open>Observations on a run\<close>

text \<open>The requests a run sent to the SDK, in order, and the errors it logged, in order.\<close>

definition remote_calls :: "event list \<Rightarrow> request list" where
  "remote_calls evs = concat (map (\<lambda>ev. case ev of Sdk r \<Rightarrow> [r] | _ \<Rightarrow> []) evs)"

text \<open>The request of lines 139-143 of the facade: the user documents of an account.\<close>

definition users_lookup :: "'d appwrite \<Rightarrow> account \<Rightarrow> request" where
  "users_lookup env acc =
     DatabasesListDocuments (databasesId env) (usersCollectionId env)
       [Equal ''accountId'' (account_id acc)]"

definition logged :: "event list \<Rightarrow> error list" where
  "logged evs = concat (map (\<lambda>ev. case ev of ConsoleLog e \<Rightarrow> [e] | _ \<Rightarrow> []) evs)"

















section \<open>Concrete services\<close>

text \<open>
  Behaviours of the remote service on which the facade is evaluated at concrete inputs:
  one that serves every request, one that rejects every request with a server error, one
  that resolves every request with \<open>null\<close>, and variations of the first.
\<close>

definition alice :: user_document where
  "alice = \<lparr>doc_id = ''u1'', doc_name = ''Alice'', doc_username = ''alice'',
             doc_email = ''alice@example.org'', doc_imageUrl = ''https://img/alice'',
             doc_bio = ''hello''\<rparr>"

definition serving_env :: "user_document appwrite" where
  "serving_env =
     \<lparr>databasesId = ''db'', postsCollectionId = ''posts'', usersCollectionId = ''users'',
      savesCollectionId = ''saves'', storageId = ''bucket'', ID_unique = ''unique()'',
      account_reply = (\<lambda>_. Resolves (Obj \<lparr>account_id = ''a1'',
                         account_email = ''alice@example.org'', account_name = ''Alice''\<rparr>)),
      session_reply = (\<lambda>_. Resolves (Obj ''session'')),
      url_reply = (\<lambda>_. Resolves (Obj ''https://img/preview'')),
      document_reply = (\<lambda>_. Resolves (Obj alice)),
      documents_reply = (\<lambda>_. Resolves (Obj \<lparr>total = 1, documents = [alice]\<rparr>)),
      file_reply = (\<lambda>_. Resolves (Obj \<lparr>file_id = ''f1''\<rparr>)),
      status_reply = (\<lambda>_. Resolves (Obj ()))\<rparr>"

definition failing_env :: "user_document appwrite" where
  "failing_env =
     \<lparr>databasesId = ''db'', postsCollectionId = ''posts'', usersCollectionId = ''users'',
      savesCollectionId = ''saves'', storageId = ''bucket'', ID_unique = ''unique()'',
      account_reply = (\<lambda>_. Rejects (AppwriteException 500 ''Server Error'')),
      session_reply = (\<lambda>_. Rejects (AppwriteException 500 ''Server Error'')),
      url_reply = (\<lambda>_. Rejects (AppwriteException 500 ''Server Error'')),
      document_reply = (\<lambda>_. Rejects (AppwriteException 500 ''Server Error'')),
      documents_reply = (\<lambda>_. Rejects (AppwriteException 500 ''Server Error'')),
      file_reply = (\<lambda>_. Rejects (AppwriteException 500 ''Server Error'')),
      status_reply = (\<lambda>_. Rejects (AppwriteException 500 ''Server Error''))\<rparr>"

text \<open>The file preview comes back \<open>undefined\<close>.\<close>

definition no_preview_env :: "user_document appwrite" where
  "no_preview_env = serving_env\<lparr>url_reply := (\<lambda>_. Resolves Undefined)\<rparr>"

text \<open>A session exists, but the users collection holds no document for the account.\<close>

definition no_document_env :: "user_document appwrite" where
  "no_document_env =
     serving_env\<lparr>documents_reply := (\<lambda>_. Resolves (Obj \<lparr>total = 0, documents = []\<rparr>))\<rparr>"

text \<open>A session exists, but the lookup in the users collection is rejected.\<close>

definition no_lookup_env :: "user_document appwrite" where
  "no_lookup_env =
     serving_env\<lparr>documents_reply := (\<lambda>_. Rejects (AppwriteException 401 ''Unauthorized''))\<rparr>"

definition signed_in :: auth_state where
  "signed_in = \<lparr>user = IUser_of alice, isAuthenticated = True, isLoading = False\<rparr>"

text \<open>
  A concrete instance of the number operations of \<open>getInfinitePosts\<close>: integers, falsy
  when zero, printed in decimal.
\<close>

fun decimal_nat :: "nat \<Rightarrow> string" where
  "decimal_nat n =
     (if n < 10 then [char_of (48 + n)] else decimal_nat (n div 10) @ [char_of (48 + n mod 10)])"

declare decimal_nat.simps [simp del]

definition decimal :: "int \<Rightarrow> string" where
  "decimal i = (if i < 0 then CHR ''-'' # decimal_nat (nat (- i)) else decimal_nat (nat i))"

definition nonzero :: "int \<Rightarrow> bool" where
  "nonzero i = (i \<noteq> 0)"





definition new_post :: INewPost where
  "new_post = \<lparr>post_userId = ''u1'', post_caption = ''sunset'', post_file = [''sunset.png''],
                post_location = Some ''Oslo'', post_tags = Some ''sea, sky''\<rparr>"


section \<open>Like toggle\<close>

lemma likesArray_count: "count_list (likesArray ls u) u \<le> 1"
proof (cases "u \<in> set ls")
  case True
  have "u \<notin> set (filter (\<lambda>Id. Id \<noteq> u) ls)" by simp
  then have "count_list (filter (\<lambda>Id. Id \<noteq> u) ls) u = 0"
    by (simp add: count_list_0_iff)
  with True show ?thesis by (simp add: likesArray_def)
next
  case False
  then have "count_list ls u = 0" by (simp add: count_list_0_iff)
  with False show ?thesis by (simp add: likesArray_def)
qed

lemma likesArray_twice_set: "set (likesArray (likesArray ls u) u) = set ls"
  by (auto simp: likesArray_def)

lemma likes_like_clicks_Suc:
  "likes (like_clicks (Suc n) p u s) = likesArray (likes (like_clicks n p u s)) u"
  by (simp add: handleLikePost_def Let_def)

text \<open>
  C1. Two successive like toggles give a list with the membership of the original one;
  after one or more toggles the acting user's id occurs at most once, whatever the initial
  list was (the initial list itself may hold the id several times, which is why a toggle
  removes all occurrences), and after any number of toggles, zero included, when the
  initial list holds it at most once; one toggle filters out every occurrence of the id
  when it is present and appends it otherwise.
\<close>

theorem like_toggle_round_trip:
  "set (likes (like_clicks 2 postId userId s)) = set (likes s)
   \<and> count_list (likes (like_clicks (Suc n) postId userId s)) userId \<le> 1
   \<and> (count_list (likes s) userId \<le> 1 \<longrightarrow>
        count_list (likes (like_clicks n postId userId s)) userId \<le> 1)
   \<and> likes (fst (handleLikePost postId userId s)) =
       (if userId \<in> set (likes s) then filter (\<lambda>Id. Id \<noteq> userId) (likes s)
        else likes s @ [userId])
   \<and> (userId \<in> set (likes s) \<longrightarrow> userId \<notin> set (likes (fst (handleLikePost postId userId s))))
   \<and> snd (handleLikePost postId userId s) =
       [LikePost postId (likes (fst (handleLikePost postId userId s)))]"
proof -
  have two: "like_clicks 2 postId userId s
      = fst (handleLikePost postId userId (fst (handleLikePost postId userId s)))"
    by (simp add: numeral_2_eq_2)
  have a: "set (likes (like_clicks 2 postId userId s)) = set (likes s)"
    unfolding two by (simp add: handleLikePost_def Let_def likesArray_twice_set)
  have b: "count_list (likes (like_clicks (Suc n) postId userId s)) userId \<le> 1"
    by (simp only: likes_like_clicks_Suc likesArray_count)
  have b': "count_list (likes s) userId \<le> 1 \<longrightarrow>
        count_list (likes (like_clicks n postId userId s)) userId \<le> 1"
  proof (cases n)
    case 0
    then show ?thesis by simp
  next
    case (Suc m)
    then show ?thesis by (simp only: likes_like_clicks_Suc likesArray_count simp_thms)
  qed
  have c: "likes (fst (handleLikePost postId userId s)) =
       (if userId \<in> set (likes s) then filter (\<lambda>Id. Id \<noteq> userId) (likes s)
        else likes s @ [userId])"
    by (simp add: handleLikePost_def Let_def likesArray_def)
  have d: "userId \<in> set (likes s) \<longrightarrow> userId \<notin> set (likes (fst (handleLikePost postId userId s)))"
    by (simp add: handleLikePost_def Let_def likesArray_def)
  have e: "snd (handleLikePost postId userId s) =
       [LikePost postId (likes (fst (handleLikePost postId userId s)))]"
    by (simp add: handleLikePost_def Let_def)
  from a b b' c d e show ?thesis by blast
qed

theorem like_toggle_round_trip_witness:
  "set (likes (like_clicks 2 ''p1'' ''u1'' \<lparr>likes = [''u1'', ''u2'', ''u1''], isSaved = False\<rparr>))
     = {''u1'', ''u2''}
   \<and> count_list (likes (like_clicks (Suc 0) ''p1'' ''u1''
        \<lparr>likes = [''u1'', ''u2'', ''u1''], isSaved = False\<rparr>)) ''u1'' \<le> 1
   \<and> ''u1'' \<in> set (likes \<lparr>likes = [''u1'', ''u2'', ''u1''], isSaved = False\<rparr>)
   \<and> ''u1'' \<notin> set (likes (fst (handleLikePost ''p1'' ''u1''
        \<lparr>likes = [''u1'', ''u2'', ''u1''], isSaved = False\<rparr>)))
   \<and> count_list (likes \<lparr>likes = [''u2'', ''u1''], isSaved = False\<rparr>) ''u1'' \<le> 1
   \<and> count_list (likes (like_clicks 0 ''p1'' ''u1''
        \<lparr>likes = [''u2'', ''u1''], isSaved = False\<rparr>)) ''u1'' \<le> 1"
  using like_toggle_round_trip [of "''p1''" "''u1''"
      "\<lparr>likes = [''u1'', ''u2'', ''u1''], isSaved = False\<rparr>" 0]
    like_toggle_round_trip [of "''p1''" "''u1''"
      "\<lparr>likes = [''u2'', ''u1''], isSaved = False\<rparr>" 0]
  by auto


section \<open>Save toggle\<close>

lemma handleSavePost_flag: "isSaved (fst (handleSavePost p u rec s)) = (rec = None)"
  by (cases rec) (simp_all add: handleSavePost_def)

lemma handleSavePost_mutation:
  "snd (handleSavePost p u rec s) =
     [case rec of None \<Rightarrow> SavePost u p | Some r \<Rightarrow> DeleteSavePost (record_id r)]"
  by (cases rec) (simp_all add: handleSavePost_def)

lemma save_clicks_Suc_fst:
  "fst (save_clicks (Suc n) p u rec s) = fst (handleSavePost p u rec (fst (save_clicks n p u rec s)))"
  by (simp add: split_def)

lemma save_clicks_Suc_snd:
  "snd (save_clicks (Suc n) p u rec s) =
     snd (save_clicks n p u rec s) @ snd (handleSavePost p u rec (fst (save_clicks n p u rec s)))"
  by (simp add: split_def)

lemma save_clicks_mutations:
  "snd (save_clicks n p u rec s) =
     replicate n (case rec of None \<Rightarrow> SavePost u p | Some r \<Rightarrow> DeleteSavePost (record_id r))"
proof (induction n)
  case 0
  show ?case by simp
next
  case (Suc n)
  show ?case
    by (simp only: save_clicks_Suc_snd Suc.IH handleSavePost_mutation
          replicate_Suc replicate_append_same [symmetric])
qed

text \<open>
  C5 as stated fails. Starting from the unsaved flag with \<open>savedPostRecord\<close> stale and
  undefined throughout, the flag after the second call is \<open>True\<close>, where the parity of two
  toggles gives \<open>False\<close>: the flags after one, two and three calls are true, true, true.
\<close>

theorem save_toggle_parity_counterexample:
  "isSaved (fst (save_clicks 2 ''p1'' ''u1'' None \<lparr>likes = [], isSaved = False\<rparr>)) = True
   \<and> parity_flag False 2 = False
   \<and> map (\<lambda>n. isSaved (fst (save_clicks n ''p1'' ''u1'' None \<lparr>likes = [], isSaved = False\<rparr>)))
        [1, 2, 3] = [True, True, True]
   \<and> map (parity_flag False) [1, 2, 3] = [True, False, True]"
proof -
  have clicks: "isSaved (fst (save_clicks 1 ''p1'' ''u1'' None \<lparr>likes = [], isSaved = False\<rparr>))"
    "isSaved (fst (save_clicks 2 ''p1'' ''u1'' None \<lparr>likes = [], isSaved = False\<rparr>))"
    "isSaved (fst (save_clicks 3 ''p1'' ''u1'' None \<lparr>likes = [], isSaved = False\<rparr>))"
    by (simp_all add: handleSavePost_def numeral_2_eq_2 numeral_3_eq_3)
  have parity: "parity_flag False 1" "\<not> parity_flag False 2" "parity_flag False 3"
    by (simp_all add: parity_flag_def)
  from clicks parity show ?thesis by simp
qed

text \<open>
  C5, amended. While the cached \<open>savedPostRecord\<close> is not refreshed, the flag after every
  call of \<open>handleSavePost\<close> is determined by the cached record alone, not by the number of
  calls: it is true exactly when no cached record exists. Every call of the sequence
  issues the same mutation: a create when the record is undefined, a delete of the cached
  record's id otherwise.
\<close>

theorem save_toggle_follows_cached_record:
  "isSaved (fst (save_clicks (Suc n) postId userId rec s)) = (rec = None)
   \<and> snd (save_clicks n postId userId rec s) =
       replicate n (case rec of None \<Rightarrow> SavePost userId postId
                    | Some r \<Rightarrow> DeleteSavePost (record_id r))"
proof -
  have "isSaved (fst (save_clicks (Suc n) postId userId rec s)) = (rec = None)"
    by (simp only: save_clicks_Suc_fst handleSavePost_flag)
  then show ?thesis
    by (simp only: save_clicks_mutations simp_thms)
qed

section \<open>Facade: basic facts\<close>

lemmas io_defs = return_def throw_def bind_io_def try_catch_def try_finally_def emit_def
  console_log_def sdk_call_def await_def sdk_sync_def catch_log_def

lemma remote_calls_simps:
  "remote_calls [] = []"
  "remote_calls (Sdk r # evs) = r # remote_calls evs"
  "remote_calls (ConsoleLog e # evs) = remote_calls evs"
  "remote_calls (evs @ evs') = remote_calls evs @ remote_calls evs'"
  by (simp_all add: remote_calls_def)

lemma deleteFile_eq:
  "deleteFile env fid =
     (case status_reply env (StorageDeleteFile (storageId env) fid) of
        Rejects e \<Rightarrow> (Inr Undefined, [Sdk (StorageDeleteFile (storageId env) fid), ConsoleLog e])
      | Resolves v \<Rightarrow> (Inr (Obj ''ok''), [Sdk (StorageDeleteFile (storageId env) fid)]))"
  by (simp add: deleteFile_def storage_deleteFile_def io_defs split: promise.splits)


section \<open>Deleting a post\<close>

lemma deletePost_missing:
  "falsy_string postId \<or> falsy_string imageId \<Longrightarrow>
   deletePost env postId imageId = (Inr Undefined, [])"
  by (simp add: deletePost_def return_def)

lemma deletePost_present:
  "p \<noteq> [] \<Longrightarrow> i \<noteq> [] \<Longrightarrow>
   deletePost env (Some p) (Some i) =
     (case status_reply env (DatabasesDeleteDocument (databasesId env) (postsCollectionId env) p) of
        Rejects e \<Rightarrow>
          (Inr Undefined,
           [Sdk (DatabasesDeleteDocument (databasesId env) (postsCollectionId env) p), ConsoleLog e])
      | Resolves (Obj _) \<Rightarrow>
          (Inr (Obj ''Ok''),
           Sdk (DatabasesDeleteDocument (databasesId env) (postsCollectionId env) p)
             # snd (deleteFile env i))
      | Resolves _ \<Rightarrow>
          (Inr Undefined,
           [Sdk (DatabasesDeleteDocument (databasesId env) (postsCollectionId env) p),
            ConsoleLog (Error ''Failed to delete post'')]))"
  by (simp add: deletePost_def databases_deleteDocument_def deleteFile_eq falsy_string_def io_defs
        split: promise.splits js.splits)

text \<open>
  C7. With \<open>postId\<close> or \<open>imageId\<close> undefined (or both), \<open>deletePost\<close> resolves with
  \<open>undefined\<close> and its run has no event at all: no document deletion, no file deletion.
  With both ids given (non-empty strings), the first request is the deletion of the post
  document; when that deletion resolves with an object the deletion of the file follows
  it and nothing else is requested, and the result is the status object. When the
  document deletion fails, it stays the only request and the result is \<open>undefined\<close>.
\<close>

theorem deletePost_guard_and_order:
  "(postId = None \<or> imageId = None \<longrightarrow> deletePost env postId imageId = (Inr Undefined, []))
   \<and> (p \<noteq> [] \<and> i \<noteq> [] \<longrightarrow>
        (case status_reply env
                (DatabasesDeleteDocument (databasesId env) (postsCollectionId env) p) of
           Resolves (Obj _) \<Rightarrow>
             fst (deletePost env (Some p) (Some i)) = Inr (Obj ''Ok'')
             \<and> remote_calls (snd (deletePost env (Some p) (Some i))) =
                 [DatabasesDeleteDocument (databasesId env) (postsCollectionId env) p,
                  StorageDeleteFile (storageId env) i]
         | _ \<Rightarrow>
             fst (deletePost env (Some p) (Some i)) = Inr Undefined
             \<and> remote_calls (snd (deletePost env (Some p) (Some i))) =
                 [DatabasesDeleteDocument (databasesId env) (postsCollectionId env) p]))"
proof -
  have missing:
    "postId = None \<or> imageId = None \<longrightarrow> deletePost env postId imageId = (Inr Undefined, [])"
    by (auto simp: deletePost_missing falsy_string_def)
  have present: "p \<noteq> [] \<and> i \<noteq> [] \<longrightarrow>
        (case status_reply env
                (DatabasesDeleteDocument (databasesId env) (postsCollectionId env) p) of
           Resolves (Obj _) \<Rightarrow>
             fst (deletePost env (Some p) (Some i)) = Inr (Obj ''Ok'')
             \<and> remote_calls (snd (deletePost env (Some p) (Some i))) =
                 [DatabasesDeleteDocument (databasesId env) (postsCollectionId env) p,
                  StorageDeleteFile (storageId env) i]
         | _ \<Rightarrow>
             fst (deletePost env (Some p) (Some i)) = Inr Undefined
             \<and> remote_calls (snd (deletePost env (Some p) (Some i))) =
                 [DatabasesDeleteDocument (databasesId env) (postsCollectionId env) p])"
    by (simp add: deletePost_present deleteFile_eq remote_calls_simps
          split: promise.splits js.splits)
  from missing present show ?thesis by (rule conjI)
qed

theorem deletePost_guard_and_order_witness:
  "deletePost serving_env None (Some ''f1'') = (Inr Undefined, [])
   \<and> deletePost serving_env (Some ''p1'') None = (Inr Undefined, [])
   \<and> fst (deletePost serving_env (Some ''p1'') (Some ''f1'')) = Inr (Obj ''Ok'')
   \<and> remote_calls (snd (deletePost serving_env (Some ''p1'') (Some ''f1''))) =
       [DatabasesDeleteDocument ''db'' ''posts'' ''p1'', StorageDeleteFile ''bucket'' ''f1'']"
  using deletePost_guard_and_order [of None "Some ''f1''" serving_env "''p1''" "''f1''"]
    deletePost_guard_and_order [of "Some ''p1''" None serving_env "''p1''" "''f1''"]
  by (simp add: serving_env_def)

section \<open>Paging through the posts\<close>

lemma infinite_queries_falsy:
  "\<not> page_truthy nt p \<Longrightarrow> infinite_queries nt ts p = return [OrderDesc ''$updatedAt'', Limit 9]"
  by (simp add: infinite_queries_def)

lemma infinite_queries_truthy:
  "page_truthy nt p \<Longrightarrow>
   infinite_queries nt ts p =
     return [OrderDesc ''$updatedAt'', Limit 9,
             CursorAfter (case p of PageNumber n \<Rightarrow> ts n | PageString s \<Rightarrow> s
                          | PageUndefined \<Rightarrow> [])]"
  by (cases p) (simp_all add: infinite_queries_def page_truthy_def page_toString_def io_defs)

lemma getInfinitePosts_calls:
  "infinite_queries nt ts p = return qs \<Longrightarrow>
   remote_calls (snd (getInfinitePosts env nt ts p)) =
     [DatabasesListDocuments (databasesId env) (postsCollectionId env) qs]"
  by (simp add: getInfinitePosts_def databases_listDocuments_def io_defs remote_calls_simps
        split: promise.splits js.splits)

lemma decimal_42: "decimal 42 = ''42''"
  by code_simp

text \<open>
  C6. With a falsy \<open>pageParam\<close> (\<open>undefined\<close>, a falsy number, the empty string) the
  query list is the descending order on \<open>$updatedAt\<close> and the limit 9, with no cursor
  term, and it is the list of the one request sent. With a truthy \<open>pageParam\<close> the list is
  the same two terms followed by \<open>cursorAfter\<close> of the stringified \<open>pageParam\<close>: the
  number's \<open>toString\<close>, or the string itself.
\<close>

theorem getInfinitePosts_query_list:
  "(\<not> page_truthy nt p \<longrightarrow>
      infinite_queries nt ts p = return [OrderDesc ''$updatedAt'', Limit 9]
      \<and> remote_calls (snd (getInfinitePosts env nt ts p)) =
          [DatabasesListDocuments (databasesId env) (postsCollectionId env)
             [OrderDesc ''$updatedAt'', Limit 9]])
   \<and> (page_truthy nt p \<longrightarrow>
        (\<exists>c. page_toString ts p = return c
           \<and> infinite_queries nt ts p = return [OrderDesc ''$updatedAt'', Limit 9, CursorAfter c]
           \<and> remote_calls (snd (getInfinitePosts env nt ts p)) =
               [DatabasesListDocuments (databasesId env) (postsCollectionId env)
                  [OrderDesc ''$updatedAt'', Limit 9, CursorAfter c]]))
   \<and> page_toString ts (PageNumber n) = return (ts n)
   \<and> page_toString ts (PageString s) = return s
   \<and> \<not> page_truthy nt PageUndefined
   \<and> page_truthy nt (PageNumber n) = nt n
   \<and> page_truthy nt (PageString s) = (s \<noteq> [])"
proof -
  have falsy: "\<not> page_truthy nt p \<longrightarrow>
      infinite_queries nt ts p = return [OrderDesc ''$updatedAt'', Limit 9]
      \<and> remote_calls (snd (getInfinitePosts env nt ts p)) =
          [DatabasesListDocuments (databasesId env) (postsCollectionId env)
             [OrderDesc ''$updatedAt'', Limit 9]]"
    using getInfinitePosts_calls infinite_queries_falsy by blast
  have truthy: "page_truthy nt p \<longrightarrow>
        (\<exists>c. page_toString ts p = return c
           \<and> infinite_queries nt ts p = return [OrderDesc ''$updatedAt'', Limit 9, CursorAfter c]
           \<and> remote_calls (snd (getInfinitePosts env nt ts p)) =
               [DatabasesListDocuments (databasesId env) (postsCollectionId env)
                  [OrderDesc ''$updatedAt'', Limit 9, CursorAfter c]])"
  proof
    assume t: "page_truthy nt p"
    let ?c = "case p of PageNumber n \<Rightarrow> ts n | PageString s \<Rightarrow> s | PageUndefined \<Rightarrow> []"
    from t have 1: "page_toString ts p = return ?c"
      by (cases p) (simp_all add: page_truthy_def page_toString_def)
    from t have 2: "infinite_queries nt ts p
        = return [OrderDesc ''$updatedAt'', Limit 9, CursorAfter ?c]"
      by (rule infinite_queries_truthy)
    from 2 have 3: "remote_calls (snd (getInfinitePosts env nt ts p)) =
               [DatabasesListDocuments (databasesId env) (postsCollectionId env)
                  [OrderDesc ''$updatedAt'', Limit 9, CursorAfter ?c]]"
      by (rule getInfinitePosts_calls)
    from 1 2 3 show "\<exists>c. page_toString ts p = return c
           \<and> infinite_queries nt ts p = return [OrderDesc ''$updatedAt'', Limit 9, CursorAfter c]
           \<and> remote_calls (snd (getInfinitePosts env nt ts p)) =
               [DatabasesListDocuments (databasesId env) (postsCollectionId env)
                  [OrderDesc ''$updatedAt'', Limit 9, CursorAfter c]]"
      by blast
  qed
  have rest: "page_toString ts (PageNumber n) = return (ts n)"
    "page_toString ts (PageString s) = return s"
    "\<not> page_truthy nt PageUndefined"
    "page_truthy nt (PageNumber n) = nt n"
    "page_truthy nt (PageString s) = (s \<noteq> [])"
    by (simp_all add: page_truthy_def page_toString_def)
  from falsy truthy rest show ?thesis by blast
qed

theorem getInfinitePosts_query_list_witness:
  "remote_calls (snd (getInfinitePosts serving_env nonzero decimal PageUndefined)) =
     [DatabasesListDocuments ''db'' ''posts'' [OrderDesc ''$updatedAt'', Limit 9]]
   \<and> remote_calls (snd (getInfinitePosts serving_env nonzero decimal (PageNumber 0))) =
     [DatabasesListDocuments ''db'' ''posts'' [OrderDesc ''$updatedAt'', Limit 9]]
   \<and> remote_calls (snd (getInfinitePosts serving_env nonzero decimal (PageNumber 42))) =
     [DatabasesListDocuments ''db'' ''posts''
        [OrderDesc ''$updatedAt'', Limit 9, CursorAfter ''42'']]
   \<and> remote_calls (snd (getInfinitePosts serving_env nonzero decimal (PageString ''66b1f0''))) =
     [DatabasesListDocuments ''db'' ''posts''
        [OrderDesc ''$updatedAt'', Limit 9, CursorAfter ''66b1f0'']]"
  using getInfinitePosts_query_list [of nonzero PageUndefined decimal serving_env 0 "[]"]
    getInfinitePosts_query_list [of nonzero "PageNumber 0" decimal serving_env 0 "[]"]
    getInfinitePosts_query_list [of nonzero "PageNumber 42" decimal serving_env 42 "[]"]
    getInfinitePosts_query_list [of nonzero "PageString ''66b1f0''" decimal serving_env 0 "[]"]
  by (auto simp add: serving_env_def page_truthy_def page_toString_def return_def nonzero_def
        decimal_42)


section \<open>Creating a post\<close>

lemma uploadFile_eq:
  "uploadFile env f =
     (case file_reply env (StorageCreateFile (storageId env) (ID_unique env) f) of
        Rejects e \<Rightarrow>
          (Inr Undefined, [Sdk (StorageCreateFile (storageId env) (ID_unique env) f), ConsoleLog e])
      | Resolves v \<Rightarrow> (Inr v, [Sdk (StorageCreateFile (storageId env) (ID_unique env) f)]))"
  by (simp add: uploadFile_def storage_createFile_def io_defs split: promise.splits)

lemma getFilePreview_eq:
  "getFilePreview env fid =
     (case url_reply env (StorageGetFilePreview (storageId env) fid 2000 2000) of
        Rejects e \<Rightarrow>
          (Inr Undefined, [Sdk (StorageGetFilePreview (storageId env) fid 2000 2000), ConsoleLog e])
      | Resolves (Obj u) \<Rightarrow>
          (Inr (Obj u), [Sdk (StorageGetFilePreview (storageId env) fid 2000 2000)])
      | Resolves _ \<Rightarrow>
          (Inr Undefined, [Sdk (StorageGetFilePreview (storageId env) fid 2000 2000),
                           ConsoleLog (Error ''Failed to get file preview'')]))"
  by (simp add: getFilePreview_def storage_getFilePreview_def io_defs
        split: promise.splits js.splits)

lemma createPost_preview_fails:
  assumes up: "uploadFile env (first_of (post_file post)) = (Inr (Obj uf), evs1)"
    and pv: "getFilePreview env (file_id uf) = (Inr fileUrl, evs2)"
    and falsy: "fileUrl = Undefined \<or> fileUrl = Null"
  shows "createPost env post =
           (Inr Undefined,
            evs1 @ evs2 @ snd (deleteFile env (file_id uf))
              @ [ConsoleLog (Error ''Failed to retrieve file URL'')])"
  using falsy
  by (auto simp add: createPost_def up pv deleteFile_eq bind_io_def try_catch_def throw_def
      catch_log_def console_log_def emit_def return_def split: promise.splits)

lemma deleteFile_calls:
  "remote_calls (snd (deleteFile env fid)) = [StorageDeleteFile (storageId env) fid]"
  by (simp add: deleteFile_eq remote_calls_simps split: promise.splits)

text \<open>
  C4. When \<open>uploadFile\<close> gives a file document and \<open>getFilePreview\<close> of its id gives a
  falsy value, \<open>createPost\<close> resolves with \<open>undefined\<close>. Its run is the upload, the
  preview retrieval, then the run of \<open>deleteFile\<close> on the uploaded file's id, and last the
  log of the failure: the request to delete that file is the last request sent, and no
  document is created.
\<close>

theorem createPost_deletes_file_when_preview_fails:
  assumes "uploadFile env (first_of (post_file post)) = (Inr (Obj uf), evs1)"
    and "getFilePreview env (file_id uf) = (Inr fileUrl, evs2)"
    and "fileUrl = Undefined \<or> fileUrl = Null"
  shows "fst (createPost env post) = Inr Undefined
     \<and> snd (createPost env post) =
         evs1 @ evs2 @ snd (deleteFile env (file_id uf))
           @ [ConsoleLog (Error ''Failed to retrieve file URL'')]
     \<and> remote_calls (snd (createPost env post)) =
         remote_calls evs1 @ remote_calls evs2 @ [StorageDeleteFile (storageId env) (file_id uf)]"
proof -
  have run: "createPost env post =
           (Inr Undefined,
            evs1 @ evs2 @ snd (deleteFile env (file_id uf))
              @ [ConsoleLog (Error ''Failed to retrieve file URL'')])"
    using assms by (rule createPost_preview_fails)
  show ?thesis
    by (simp add: run remote_calls_simps deleteFile_calls)
qed

theorem createPost_deletes_file_when_preview_fails_witness:
  "uploadFile no_preview_env (first_of (post_file new_post)) =
     (Inr (Obj \<lparr>file_id = ''f1''\<rparr>),
      [Sdk (StorageCreateFile ''bucket'' ''unique()'' (Obj ''sunset.png''))])
   \<and> getFilePreview no_preview_env ''f1'' =
     (Inr Undefined,
      [Sdk (StorageGetFilePreview ''bucket'' ''f1'' 2000 2000),
       ConsoleLog (Error ''Failed to get file preview'')])
   \<and> fst (createPost no_preview_env new_post) = Inr Undefined
   \<and> remote_calls (snd (createPost no_preview_env new_post)) =
       [StorageCreateFile ''bucket'' ''unique()'' (Obj ''sunset.png''),
        StorageGetFilePreview ''bucket'' ''f1'' 2000 2000,
        StorageDeleteFile ''bucket'' ''f1'']"
proof -
  have up: "uploadFile no_preview_env (first_of (post_file new_post)) =
     (Inr (Obj \<lparr>file_id = ''f1''\<rparr>),
      [Sdk (StorageCreateFile ''bucket'' ''unique()'' (Obj ''sunset.png''))])"
    by (simp add: uploadFile_eq no_preview_env_def serving_env_def new_post_def first_of_def)
  have pv: "getFilePreview no_preview_env (file_id \<lparr>file_id = ''f1''\<rparr>) =
     (Inr Undefined,
      [Sdk (StorageGetFilePreview ''bucket'' ''f1'' 2000 2000),
       ConsoleLog (Error ''Failed to get file preview'')])"
    by (simp add: getFilePreview_eq no_preview_env_def serving_env_def)
  have bucket: "storageId no_preview_env = ''bucket''"
    by (simp add: no_preview_env_def serving_env_def)
  from createPost_deletes_file_when_preview_fails [OF up pv] up pv bucket
  show ?thesis by (simp add: remote_calls_simps deleteFile_calls)
qed

section \<open>Session bootstrap\<close>

lemma getAccount_eq:
  "getAccount env =
     (case account_reply env AccountGet of
        Rejects e \<Rightarrow> (Inr Undefined, [Sdk AccountGet, ConsoleLog e])
      | Resolves v \<Rightarrow> (Inr v, [Sdk AccountGet]))"
  by (simp add: getAccount_def account_get_def io_defs split: promise.splits)

lemma getCurrentUser_eq:
  "getCurrentUser env =
     (case account_reply env AccountGet of
        Rejects e \<Rightarrow>
          (Inr Null, [Sdk AccountGet, ConsoleLog e,
                      ConsoleLog (Error ''Failed to retrieve the current account'')])
      | Resolves (Obj acc) \<Rightarrow>
          (case documents_reply env (users_lookup env acc) of
             Rejects e \<Rightarrow> (Inr Null, [Sdk AccountGet, Sdk (users_lookup env acc), ConsoleLog e])
           | Resolves (Obj l) \<Rightarrow>
               (Inr (first_of (documents l)), [Sdk AccountGet, Sdk (users_lookup env acc)])
           | Resolves _ \<Rightarrow>
               (Inr Null, [Sdk AccountGet, Sdk (users_lookup env acc),
                           ConsoleLog (TypeError ''Cannot read properties (reading documents)'')]))
      | Resolves _ \<Rightarrow>
          (Inr Null, [Sdk AccountGet,
                      ConsoleLog (Error ''Failed to retrieve the current account'')]))"
  by (simp add: getCurrentUser_def getAccount_eq databases_listDocuments_def users_lookup_def
        io_defs split: promise.splits js.splits)

lemma getCurrentUser_total: "\<exists>v. fst (getCurrentUser env) = Inr v"
  by (simp add: getCurrentUser_eq split: promise.splits js.splits)

lemma getCurrentUser_no_account:
  "\<forall>acc. account_reply env AccountGet \<noteq> Resolves (Obj acc) \<Longrightarrow>
   fst (getCurrentUser env) = Inr Null"
  by (simp add: getCurrentUser_eq split: promise.splits js.splits)

lemma getCurrentUser_no_lookup:
  "account_reply env AccountGet = Resolves (Obj acc) \<Longrightarrow>
   \<forall>l. documents_reply env (users_lookup env acc) \<noteq> Resolves (Obj l) \<Longrightarrow>
   fst (getCurrentUser env) = Inr Null"
  by (simp add: getCurrentUser_eq split: promise.splits js.splits)

lemma getCurrentUser_found:
  "account_reply env AccountGet = Resolves (Obj acc) \<Longrightarrow>
   documents_reply env (users_lookup env acc) = Resolves (Obj l) \<Longrightarrow>
   getCurrentUser env = (Inr (first_of (documents l)), [Sdk AccountGet, Sdk (users_lookup env acc)])"
  by (simp add: getCurrentUser_eq)

lemma logged_simps:
  "logged [] = []"
  "logged (Sdk r # evs) = logged evs"
  "logged (ConsoleLog e # evs) = e # logged evs"
  by (simp_all add: logged_def)

lemma getCurrentUser_logged_iff:
  "(logged (snd (getCurrentUser env)) \<noteq> []) = (fst (getCurrentUser env) = Inr Null)"
  by (simp add: getCurrentUser_eq logged_simps first_of_def
        split: promise.splits js.splits list.splits)

lemma checkAuthUser_eq:
  "checkAuthUser env =
     (case fst (getCurrentUser env) of
        Inr (Obj cu) \<Rightarrow>
          (Inr True, SetIsLoading True # snd (getCurrentUser env)
                       @ [SetUser (IUser_of cu), SetIsAuthenticated True, SetIsLoading False])
      | _ \<Rightarrow> (Inr False, SetIsLoading True # snd (getCurrentUser env) @ [SetIsLoading False]))"
  using getCurrentUser_total [of env]
  by (cases "getCurrentUser env")
     (auto simp add: checkAuthUser_def io_defs split: js.splits sum.splits)

lemma state_after_Nil: "state_after s [] = s"
  by (simp add: state_after_def)

lemma state_after_Cons: "state_after s (ev # evs) = state_after (apply_event s ev) evs"
  by (simp add: state_after_def)

lemma state_after_getCurrentUser:
  "state_after s (snd (getCurrentUser env) @ evs) = state_after s evs"
  by (simp add: getCurrentUser_eq state_after_def split: promise.splits js.splits)

lemma loading_writes_simps:
  "loading_writes [] = []"
  "loading_writes (SetIsLoading b # evs) = b # loading_writes evs"
  "loading_writes (SetUser u # evs) = loading_writes evs"
  "loading_writes (SetIsAuthenticated a # evs) = loading_writes evs"
  "loading_writes (evs @ evs') = loading_writes evs @ loading_writes evs'"
  by (simp_all add: loading_writes_def)

lemma loading_writes_getCurrentUser: "loading_writes (snd (getCurrentUser env)) = []"
  by (simp add: getCurrentUser_eq loading_writes_def split: promise.splits js.splits)

lemma checkAuthUser_falsy:
  assumes "fst (getCurrentUser env) = Inr Null \<or> fst (getCurrentUser env) = Inr Undefined"
  shows "fst (checkAuthUser env) = Inr False"
    and "state_after s (snd (checkAuthUser env)) = s\<lparr>isLoading := False\<rparr>"
  using assms
  by (auto simp add: checkAuthUser_eq state_after_Cons state_after_Nil state_after_getCurrentUser)

lemma checkAuthUser_found:
  assumes "fst (getCurrentUser env) = Inr (Obj cu)"
  shows "fst (checkAuthUser env) = Inr True"
    and "state_after s (snd (checkAuthUser env)) =
           \<lparr>user = IUser_of cu, isAuthenticated = True, isLoading = False\<rparr>"
  using assms
  by (auto simp add: checkAuthUser_eq state_after_Cons state_after_Nil state_after_getCurrentUser)

lemma checkAuthUser_events:
  "\<exists>mid. snd (checkAuthUser env) =
            SetIsLoading True # snd (getCurrentUser env) @ mid @ [SetIsLoading False]
     \<and> loading_writes mid = []"
proof (cases "fst (getCurrentUser env)")
  case (Inl e)
  then show ?thesis
    by (simp add: checkAuthUser_eq loading_writes_simps)
next
  case (Inr v)
  then show ?thesis
  proof (cases v)
    case (Obj cu)
    with Inr have "snd (checkAuthUser env) = SetIsLoading True # snd (getCurrentUser env)
        @ [SetUser (IUser_of cu), SetIsAuthenticated True] @ [SetIsLoading False]"
      by (simp add: checkAuthUser_eq)
    moreover have "loading_writes [SetUser (IUser_of cu), SetIsAuthenticated True] = []"
      by (simp add: loading_writes_simps)
    ultimately show ?thesis by blast
  qed (simp_all add: checkAuthUser_eq loading_writes_simps)
qed

lemma checkAuthUser_loading:
  "hd (snd (checkAuthUser env)) = SetIsLoading True"
  "last (snd (checkAuthUser env)) = SetIsLoading False"
  "loading_writes (snd (checkAuthUser env)) = [True, False]"
proof -
  obtain mid where evs: "snd (checkAuthUser env)
      = SetIsLoading True # snd (getCurrentUser env) @ mid @ [SetIsLoading False]"
    and mid: "loading_writes mid = []"
    using checkAuthUser_events by blast
  show "hd (snd (checkAuthUser env)) = SetIsLoading True" by (simp add: evs)
  show "last (snd (checkAuthUser env)) = SetIsLoading False" by (simp add: evs)
  show "loading_writes (snd (checkAuthUser env)) = [True, False]"
    by (simp add: evs mid loading_writes_simps loading_writes_getCurrentUser)
qed

lemma checkAuthUser_isLoading: "isLoading (state_after s (snd (checkAuthUser env))) = False"
proof (cases "fst (getCurrentUser env)")
  case (Inl e)
  then show ?thesis
    by (simp add: checkAuthUser_eq state_after_Cons state_after_Nil state_after_getCurrentUser)
next
  case (Inr v)
  then show ?thesis
    by (cases v)
       (simp_all add: checkAuthUser_eq state_after_Cons state_after_Nil state_after_getCurrentUser)
qed

text \<open>
  C2. In every run of \<open>checkAuthUser\<close> the first event sets the loading flag, the last
  one clears it, and these are its only two writes of the flag. When the account fetch
  does not resolve with an account (rejected, or no session), when the lookup of the user
  document does not resolve with a list, or whenever \<open>getCurrentUser\<close> yields \<open>null\<close> or
  \<open>undefined\<close>, the result is \<open>false\<close> and the user object and \<open>isAuthenticated\<close> are
  what they were. When the account fetch resolves with an account and the lookup with a
  list whose first document is \<open>cu\<close>, the result is \<open>true\<close>, \<open>isAuthenticated\<close> is
  true and the six user fields are those of \<open>cu\<close>.
\<close>

theorem checkAuthUser_outcomes:
  "hd (snd (checkAuthUser env)) = SetIsLoading True
   \<and> last (snd (checkAuthUser env)) = SetIsLoading False
   \<and> loading_writes (snd (checkAuthUser env)) = [True, False]
   \<and> isLoading (state_after s (snd (checkAuthUser env))) = False
   \<and> ((\<forall>a. account_reply env AccountGet \<noteq> Resolves (Obj a)) \<longrightarrow>
         fst (checkAuthUser env) = Inr False
         \<and> user (state_after s (snd (checkAuthUser env))) = user s
         \<and> isAuthenticated (state_after s (snd (checkAuthUser env))) = isAuthenticated s)
   \<and> (account_reply env AccountGet = Resolves (Obj acc)
        \<and> (\<forall>l. documents_reply env (users_lookup env acc) \<noteq> Resolves (Obj l)) \<longrightarrow>
         fst (checkAuthUser env) = Inr False
         \<and> user (state_after s (snd (checkAuthUser env))) = user s
         \<and> isAuthenticated (state_after s (snd (checkAuthUser env))) = isAuthenticated s)
   \<and> (fst (getCurrentUser env) = Inr Null \<or> fst (getCurrentUser env) = Inr Undefined \<longrightarrow>
         fst (checkAuthUser env) = Inr False
         \<and> user (state_after s (snd (checkAuthUser env))) = user s
         \<and> isAuthenticated (state_after s (snd (checkAuthUser env))) = isAuthenticated s)
   \<and> (account_reply env AccountGet = Resolves (Obj acc)
        \<and> documents_reply env (users_lookup env acc) = Resolves (Obj docs)
        \<and> documents docs = cu # others \<longrightarrow>
         fst (checkAuthUser env) = Inr True
         \<and> isAuthenticated (state_after s (snd (checkAuthUser env)))
         \<and> user (state_after s (snd (checkAuthUser env))) =
             \<lparr>user_id = doc_id cu, user_name = doc_name cu, user_username = doc_username cu,
              user_email = doc_email cu, user_imageUrl = doc_imageUrl cu,
              user_bio = doc_bio cu\<rparr>)"
proof -
  let ?unchanged = "fst (checkAuthUser env) = Inr False
         \<and> user (state_after s (snd (checkAuthUser env))) = user s
         \<and> isAuthenticated (state_after s (snd (checkAuthUser env))) = isAuthenticated s"
  have falsy: "?unchanged"
    if "fst (getCurrentUser env) = Inr Null \<or> fst (getCurrentUser env) = Inr Undefined"
    using checkAuthUser_falsy(1) [OF that] checkAuthUser_falsy(2) [OF that, of s] by simp
  have a: "(\<forall>a. account_reply env AccountGet \<noteq> Resolves (Obj a)) \<longrightarrow> ?unchanged"
    using falsy getCurrentUser_no_account by blast
  have b: "account_reply env AccountGet = Resolves (Obj acc)
        \<and> (\<forall>l. documents_reply env (users_lookup env acc) \<noteq> Resolves (Obj l)) \<longrightarrow> ?unchanged"
    using falsy getCurrentUser_no_lookup by blast
  have c: "fst (getCurrentUser env) = Inr Null \<or> fst (getCurrentUser env) = Inr Undefined
        \<longrightarrow> ?unchanged"
    using falsy by blast
  have d: "account_reply env AccountGet = Resolves (Obj acc)
        \<and> documents_reply env (users_lookup env acc) = Resolves (Obj docs)
        \<and> documents docs = cu # others \<longrightarrow>
         fst (checkAuthUser env) = Inr True
         \<and> isAuthenticated (state_after s (snd (checkAuthUser env)))
         \<and> user (state_after s (snd (checkAuthUser env))) =
             \<lparr>user_id = doc_id cu, user_name = doc_name cu, user_username = doc_username cu,
              user_email = doc_email cu, user_imageUrl = doc_imageUrl cu,
              user_bio = doc_bio cu\<rparr>"
  proof
    assume h: "account_reply env AccountGet = Resolves (Obj acc)
        \<and> documents_reply env (users_lookup env acc) = Resolves (Obj docs)
        \<and> documents docs = cu # others"
    then have found: "fst (getCurrentUser env) = Inr (Obj cu)"
      by (simp add: getCurrentUser_found first_of_def)
    from checkAuthUser_found(1) [OF found] checkAuthUser_found(2) [OF found, of s]
    show "fst (checkAuthUser env) = Inr True
         \<and> isAuthenticated (state_after s (snd (checkAuthUser env)))
         \<and> user (state_after s (snd (checkAuthUser env))) =
             \<lparr>user_id = doc_id cu, user_name = doc_name cu, user_username = doc_username cu,
              user_email = doc_email cu, user_imageUrl = doc_imageUrl cu,
              user_bio = doc_bio cu\<rparr>"
      by (simp add: IUser_of_def)
  qed
  from checkAuthUser_loading [of env] checkAuthUser_isLoading [of s env] a b c d
  show ?thesis by blast
qed

lemma serving_env_replies:
  "account_reply serving_env AccountGet =
     Resolves (Obj \<lparr>account_id = ''a1'', account_email = ''alice@example.org'',
                    account_name = ''Alice''\<rparr>)"
  "documents_reply serving_env r = Resolves (Obj \<lparr>total = 1, documents = [alice]\<rparr>)"
  by (simp_all add: serving_env_def)

lemma failing_env_replies:
  "account_reply failing_env r = Rejects (AppwriteException 500 ''Server Error'')"
  by (simp add: failing_env_def)

lemma no_lookup_env_replies:
  "account_reply no_lookup_env AccountGet =
     Resolves (Obj \<lparr>account_id = ''a1'', account_email = ''alice@example.org'',
                    account_name = ''Alice''\<rparr>)"
  "documents_reply no_lookup_env r = Rejects (AppwriteException 401 ''Unauthorized'')"
  by (simp_all add: no_lookup_env_def serving_env_def)

lemma no_document_env_replies:
  "account_reply no_document_env AccountGet =
     Resolves (Obj \<lparr>account_id = ''a1'', account_email = ''alice@example.org'',
                    account_name = ''Alice''\<rparr>)"
  "documents_reply no_document_env r = Resolves (Obj \<lparr>total = 0, documents = []\<rparr>)"
  by (simp_all add: no_document_env_def serving_env_def)

theorem checkAuthUser_outcomes_witness:
  "fst (checkAuthUser failing_env) = Inr False
   \<and> user (state_after INITIAL_STATE (snd (checkAuthUser failing_env))) = INITIAL_USER
   \<and> isAuthenticated (state_after INITIAL_STATE (snd (checkAuthUser failing_env))) = False
   \<and> fst (checkAuthUser no_lookup_env) = Inr False
   \<and> isAuthenticated (state_after INITIAL_STATE (snd (checkAuthUser no_lookup_env))) = False
   \<and> fst (getCurrentUser no_document_env) = Inr Undefined
   \<and> fst (checkAuthUser no_document_env) = Inr False
   \<and> isAuthenticated (state_after INITIAL_STATE (snd (checkAuthUser no_document_env))) = False
   \<and> fst (checkAuthUser serving_env) = Inr True
   \<and> isAuthenticated (state_after INITIAL_STATE (snd (checkAuthUser serving_env)))
   \<and> user (state_after INITIAL_STATE (snd (checkAuthUser serving_env))) =
       \<lparr>user_id = ''u1'', user_name = ''Alice'', user_username = ''alice'',
        user_email = ''alice@example.org'', user_imageUrl = ''https://img/alice'',
        user_bio = ''hello''\<rparr>"
proof -
  let ?acc = "\<lparr>account_id = ''a1'', account_email = ''alice@example.org'',
               account_name = ''Alice''\<rparr>"
  have undef: "fst (getCurrentUser no_document_env) = Inr Undefined"
    by (simp add: getCurrentUser_eq no_document_env_replies first_of_def)
  have 1: "fst (checkAuthUser failing_env) = Inr False
     \<and> user (state_after INITIAL_STATE (snd (checkAuthUser failing_env))) = INITIAL_USER
     \<and> isAuthenticated (state_after INITIAL_STATE (snd (checkAuthUser failing_env))) = False"
    using checkAuthUser_outcomes [of failing_env INITIAL_STATE ?acc "\<lparr>total = 0, documents = []\<rparr>" alice "[]"]
    by (simp add: failing_env_replies INITIAL_STATE_def)
  have 2: "fst (checkAuthUser no_lookup_env) = Inr False
     \<and> isAuthenticated (state_after INITIAL_STATE (snd (checkAuthUser no_lookup_env))) = False"
    using checkAuthUser_outcomes [of no_lookup_env INITIAL_STATE ?acc "\<lparr>total = 0, documents = []\<rparr>" alice "[]"]
    by (simp add: no_lookup_env_replies INITIAL_STATE_def)
  have 3: "fst (checkAuthUser no_document_env) = Inr False
     \<and> isAuthenticated (state_after INITIAL_STATE (snd (checkAuthUser no_document_env))) = False"
    using checkAuthUser_outcomes [of no_document_env INITIAL_STATE ?acc "\<lparr>total = 0, documents = []\<rparr>" alice "[]"]
      undef
    by (simp add: INITIAL_STATE_def)
  have 4: "fst (checkAuthUser serving_env) = Inr True
     \<and> isAuthenticated (state_after INITIAL_STATE (snd (checkAuthUser serving_env)))
     \<and> user (state_after INITIAL_STATE (snd (checkAuthUser serving_env))) =
       \<lparr>user_id = ''u1'', user_name = ''Alice'', user_username = ''alice'',
        user_email = ''alice@example.org'', user_imageUrl = ''https://img/alice'',
        user_bio = ''hello''\<rparr>"
    using checkAuthUser_outcomes [of serving_env INITIAL_STATE ?acc "\<lparr>total = 1, documents = [alice]\<rparr>" alice "[]"]
    by (simp add: serving_env_replies alice_def)
  from 1 2 undef 3 4 show ?thesis by blast
qed

text \<open>
  C10. When the account fetch resolves with an account and the lookup with an empty list
  of documents, \<open>getCurrentUser\<close> resolves with \<open>undefined\<close> and logs nothing: its catch
  block is not entered. It logs something exactly when it resolves with \<open>null\<close>, which is
  what every caught failure gives (here: an account fetch that does not resolve with an
  account). \<open>checkAuthUser\<close> resolves with \<open>false\<close> on both values and leaves the user
  and \<open>isAuthenticated\<close> as they were, so a run on a session without a user document and
  a run without a session end with the same result and the same state.
\<close>

theorem missing_document_same_as_no_session:
  "(account_reply env AccountGet = Resolves (Obj acc)
      \<and> documents_reply env (users_lookup env acc) = Resolves (Obj docs)
      \<and> documents docs = [] \<longrightarrow>
        getCurrentUser env = (Inr Undefined, [Sdk AccountGet, Sdk (users_lookup env acc)])
        \<and> logged (snd (getCurrentUser env)) = [])
   \<and> ((logged (snd (getCurrentUser env)) \<noteq> []) = (fst (getCurrentUser env) = Inr Null))
   \<and> ((\<forall>a. account_reply env AccountGet \<noteq> Resolves (Obj a)) \<longrightarrow>
         fst (getCurrentUser env) = Inr Null)
   \<and> (fst (getCurrentUser env) = Inr Undefined \<or> fst (getCurrentUser env) = Inr Null \<longrightarrow>
         fst (checkAuthUser env) = Inr False
         \<and> user (state_after s (snd (checkAuthUser env))) = user s
         \<and> isAuthenticated (state_after s (snd (checkAuthUser env))) = isAuthenticated s)
   \<and> (fst (getCurrentUser env) = Inr Undefined \<and> fst (getCurrentUser env') = Inr Null \<longrightarrow>
         fst (checkAuthUser env) = fst (checkAuthUser env')
         \<and> state_after s (snd (checkAuthUser env)) = state_after s (snd (checkAuthUser env')))"
proof -
  have a: "account_reply env AccountGet = Resolves (Obj acc)
      \<and> documents_reply env (users_lookup env acc) = Resolves (Obj docs)
      \<and> documents docs = [] \<longrightarrow>
        getCurrentUser env = (Inr Undefined, [Sdk AccountGet, Sdk (users_lookup env acc)])
        \<and> logged (snd (getCurrentUser env)) = []"
    by (simp add: getCurrentUser_eq first_of_def logged_simps)
  have b: "(logged (snd (getCurrentUser env)) \<noteq> []) = (fst (getCurrentUser env) = Inr Null)"
    by (rule getCurrentUser_logged_iff)
  have c: "(\<forall>a. account_reply env AccountGet \<noteq> Resolves (Obj a)) \<longrightarrow>
         fst (getCurrentUser env) = Inr Null"
    using getCurrentUser_no_account by blast
  have d: "fst (getCurrentUser env) = Inr Undefined \<or> fst (getCurrentUser env) = Inr Null \<longrightarrow>
         fst (checkAuthUser env) = Inr False
         \<and> user (state_after s (snd (checkAuthUser env))) = user s
         \<and> isAuthenticated (state_after s (snd (checkAuthUser env))) = isAuthenticated s"
  proof
    assume "fst (getCurrentUser env) = Inr Undefined \<or> fst (getCurrentUser env) = Inr Null"
    then have h: "fst (getCurrentUser env) = Inr Null \<or> fst (getCurrentUser env) = Inr Undefined"
      by blast
    from checkAuthUser_falsy(1) [OF h] checkAuthUser_falsy(2) [OF h, of s]
    show "fst (checkAuthUser env) = Inr False
         \<and> user (state_after s (snd (checkAuthUser env))) = user s
         \<and> isAuthenticated (state_after s (snd (checkAuthUser env))) = isAuthenticated s"
      by simp
  qed
  have e: "fst (getCurrentUser env) = Inr Undefined \<and> fst (getCurrentUser env') = Inr Null \<longrightarrow>
         fst (checkAuthUser env) = fst (checkAuthUser env')
         \<and> state_after s (snd (checkAuthUser env)) = state_after s (snd (checkAuthUser env'))"
  proof
    assume h: "fst (getCurrentUser env) = Inr Undefined \<and> fst (getCurrentUser env') = Inr Null"
    then have 1: "fst (getCurrentUser env) = Inr Null \<or> fst (getCurrentUser env) = Inr Undefined"
      and 2: "fst (getCurrentUser env') = Inr Null \<or> fst (getCurrentUser env') = Inr Undefined"
      by simp_all
    from checkAuthUser_falsy(1) [OF 1] checkAuthUser_falsy(2) [OF 1, of s]
      checkAuthUser_falsy(1) [OF 2] checkAuthUser_falsy(2) [OF 2, of s]
    show "fst (checkAuthUser env) = fst (checkAuthUser env')
         \<and> state_after s (snd (checkAuthUser env)) = state_after s (snd (checkAuthUser env'))"
      by simp
  qed
  from a b c d e show ?thesis by blast
qed

theorem missing_document_same_as_no_session_witness:
  "getCurrentUser no_document_env =
     (Inr Undefined,
      [Sdk AccountGet, Sdk (DatabasesListDocuments ''db'' ''users'' [Equal ''accountId'' ''a1''])])
   \<and> getCurrentUser failing_env =
     (Inr Null,
      [Sdk AccountGet, ConsoleLog (AppwriteException 500 ''Server Error''),
       ConsoleLog (Error ''Failed to retrieve the current account'')])
   \<and> fst (checkAuthUser no_document_env) = Inr False
   \<and> fst (checkAuthUser failing_env) = Inr False
   \<and> state_after signed_in (snd (checkAuthUser no_document_env)) = signed_in
   \<and> state_after signed_in (snd (checkAuthUser failing_env)) = signed_in"
proof -
  let ?acc = "\<lparr>account_id = ''a1'', account_email = ''alice@example.org'',
               account_name = ''Alice''\<rparr>"
  have lookup: "users_lookup no_document_env ?acc =
      DatabasesListDocuments ''db'' ''users'' [Equal ''accountId'' ''a1'']"
    by (simp add: users_lookup_def no_document_env_def serving_env_def)
  have undef: "getCurrentUser no_document_env =
     (Inr Undefined,
      [Sdk AccountGet, Sdk (DatabasesListDocuments ''db'' ''users'' [Equal ''accountId'' ''a1''])])"
    using missing_document_same_as_no_session
      [of no_document_env ?acc "\<lparr>total = 0, documents = []\<rparr>" signed_in failing_env]
    by (simp add: no_document_env_replies lookup)
  have null: "getCurrentUser failing_env =
     (Inr Null,
      [Sdk AccountGet, ConsoleLog (AppwriteException 500 ''Server Error''),
       ConsoleLog (Error ''Failed to retrieve the current account'')])"
    by (simp add: getCurrentUser_eq failing_env_replies)
  have same: "fst (checkAuthUser no_document_env) = Inr False
     \<and> fst (checkAuthUser failing_env) = Inr False
     \<and> user (state_after signed_in (snd (checkAuthUser no_document_env))) = user signed_in
     \<and> isAuthenticated (state_after signed_in (snd (checkAuthUser no_document_env)))
     \<and> state_after signed_in (snd (checkAuthUser no_document_env))
         = state_after signed_in (snd (checkAuthUser failing_env))"
    using missing_document_same_as_no_session
      [of no_document_env ?acc "\<lparr>total = 0, documents = []\<rparr>" signed_in failing_env]
      missing_document_same_as_no_session
      [of failing_env ?acc "\<lparr>total = 0, documents = []\<rparr>" signed_in failing_env]
    by (simp add: undef null signed_in_def)
  have loading: "isLoading (state_after signed_in (snd (checkAuthUser no_document_env))) = False"
    by (rule checkAuthUser_isLoading)
  have st: "state_after signed_in (snd (checkAuthUser no_document_env)) = signed_in"
  proof (rule auth_state.equality)
    show "user (state_after signed_in (snd (checkAuthUser no_document_env))) = user signed_in"
      using same by blast
    have "isAuthenticated (state_after signed_in (snd (checkAuthUser no_document_env)))"
      using same by blast
    then show "isAuthenticated (state_after signed_in (snd (checkAuthUser no_document_env)))
        = isAuthenticated signed_in"
      by (simp add: signed_in_def)
    show "isLoading (state_after signed_in (snd (checkAuthUser no_document_env)))
        = isLoading signed_in"
      using loading by (simp add: signed_in_def)
  qed simp
  from undef null same st show ?thesis by simp
qed


section \<open>Mounting the provider\<close>

lemma checkAuthUser_no_navigation: "Navigate path \<notin> set (snd (checkAuthUser env))"
  by (cases "fst (getCurrentUser env)")
     (auto simp add: checkAuthUser_eq getCurrentUser_eq split: promise.splits js.splits)

text \<open>
  C9. On mount a redirect to the sign-in route is issued if and only if the
  \<open>cookieFallback\<close> entry is absent (\<open>getItem\<close> gives \<open>null\<close>) or empty (the stored value
  is the empty list of cookies, the string \<open>[]\<close>). Whatever the entry is, the run of
  \<open>checkAuthUser\<close> follows: the events of the effect are the redirect, if any, and then
  those of \<open>checkAuthUser\<close>.
\<close>

theorem mount_redirects_iff_marker_absent_or_empty:
  "(Navigate ''/sign-in'' \<in> set (mount_effect env cookieFallback))
     = (cookieFallback = None \<or> cookieFallback = Some ''[]'')
   \<and> mount_effect env cookieFallback =
       (if cookieFallback = None \<or> cookieFallback = Some ''[]'' then [Navigate ''/sign-in'']
        else []) @ snd (checkAuthUser env)
   \<and> hd (snd (checkAuthUser env)) = SetIsLoading True
   \<and> (\<exists>path. Navigate path \<in> set (mount_effect env cookieFallback))
     = (cookieFallback = None \<or> cookieFallback = Some ''[]'')"
proof -
  have a: "(Navigate ''/sign-in'' \<in> set (mount_effect env cookieFallback))
     = (cookieFallback = None \<or> cookieFallback = Some ''[]'')"
    by (auto simp add: mount_effect_def redirect_on_mount_def checkAuthUser_no_navigation)
  have b: "mount_effect env cookieFallback =
       (if cookieFallback = None \<or> cookieFallback = Some ''[]'' then [Navigate ''/sign-in'']
        else []) @ snd (checkAuthUser env)"
    by (auto simp add: mount_effect_def redirect_on_mount_def)
  have c: "hd (snd (checkAuthUser env)) = SetIsLoading True"
    by (rule checkAuthUser_loading)
  have d: "(\<exists>path. Navigate path \<in> set (mount_effect env cookieFallback))
     = (cookieFallback = None \<or> cookieFallback = Some ''[]'')"
    by (auto simp add: mount_effect_def redirect_on_mount_def checkAuthUser_no_navigation)
  from a b c d show ?thesis by blast
qed


section \<open>Layouts\<close>

text \<open>
  C8 as stated fails on both layouts. With a signed-in store the unauthenticated layout
  renders the outlet of the public routes and no redirect to the home route; with the
  initial, unauthenticated store the authenticated layout renders its outlet all the same.
\<close>

theorem layouts_ignore_session_counterexample:
  "isAuthenticated signed_in
   \<and> \<not> renders (NavigateTo ''/'') (AuthLayout signed_in)
   \<and> renders Outlet (AuthLayout signed_in)
   \<and> \<not> isAuthenticated INITIAL_STATE
   \<and> renders Outlet (RootLayout INITIAL_STATE)"
  by (simp add: signed_in_def INITIAL_STATE_def AuthLayout_def RootLayout_def)

text \<open>
  C8, amended. The choice between the two layouts is a function of the route alone: the
  routes \<open>/sign-in\<close> and \<open>/sign-up\<close> get the unauthenticated layout and every other route
  the authenticated one, whatever the store holds. The authenticated layout is not gated:
  for every state of the store it renders the navigation bars and the outlet.
\<close>

theorem layout_chosen_by_route_alone:
  "App store r =
     MainElement [if r = SignIn \<or> r = SignUp then AuthLayout store else RootLayout store]
   \<and> RootLayout store =
       MainElement [TopNavBar, AsideNavBar, SectionElement [Outlet], BottomNavBar]
   \<and> renders Outlet (RootLayout store)
   \<and> RootLayout store = RootLayout store'"
  by (cases r) (simp_all add: App_def RootLayout_def)

section \<open>Failures of the facade\<close>

subsection \<open>Operations that are one remote call\<close>


















subsection \<open>Operations of several steps\<close>











subsection \<open>Signing up\<close>






subsection \<open>The current user\<close>




subsection \<open>The claim and what holds instead\<close>






end
